theory Spec2Isabelle
  imports Complex_Main "HOL-Library.Word" "HOL-Library.Product_Lexorder"
begin

section \<open>Data model of \<^verbatim>\<open>download_and_predict/base.py\<close>\<close>

text \<open>
  Every \<^verbatim>\<open>raise\<close> of the Python code and of the library calls it makes is a value of
  \<open>error\<close>; a function that can raise returns \<open>error + 'a\<close> with \<open>Inl\<close> for the exception.
\<close>

datatype error =
    TypeError | IndexError | KeyError | AttributeError | ValueError
  | HTTPError | ConnectionError | RasterioIOError

text \<open>
  \<^verbatim>\<open>mercantile.Tile\<close> is a named tuple of three fields \<^verbatim>\<open>x, y, z\<close>; it does not check
  what its fields hold, so the model is polymorphic in the field type. Everything but
  \<open>get_tiles\<close> works on tiles of Python integers.
\<close>

datatype 'a tile = Tile (tile_x: 'a) (tile_y: 'a) (tile_z: 'a)

datatype ModelType = OBJECT_DETECT | CLASSIFICATION

text \<open>
  Python floats are idealised as real numbers: rounding is outside the model.
  A polygon is the list of the vertices of its exterior ring, the first one repeated
  at the end.
\<close>

type_synonym point = "real \<times> real"
type_synonym polygon = "point list"

subsection \<open>Library functions used by the geographic transform\<close>

text \<open>\<^verbatim>\<open>shapely.geometry.box(minx, miny, maxx, maxy)\<close>, counter-clockwise.\<close>

definition geometry_box :: "real \<Rightarrow> real \<Rightarrow> real \<Rightarrow> real \<Rightarrow> polygon" where
  "geometry_box minx miny maxx maxy =
     [(maxx, miny), (maxx, maxy), (minx, maxy), (minx, miny), (maxx, miny)]"

text \<open>
  \<^verbatim>\<open>shapely.affinity.affine_transform(geom, [a, b, d, e, xoff, yoff])\<close> maps every vertex
  \<open>(x, y)\<close> to \<open>(a*x + b*y + xoff, d*x + e*y + yoff)\<close>; a matrix that has not six
  entries (twelve in 3D, unused here) is a \<^verbatim>\<open>ValueError\<close>.
\<close>

definition affine_transform :: "polygon \<Rightarrow> real list \<Rightarrow> error + polygon" where
  "affine_transform geom matrix =
     (case matrix of
        [a, b, d, e, xoff, yoff] \<Rightarrow>
          Inr (map (\<lambda>(x, y). (a * x + b * y + xoff, d * x + e * y + yoff)) geom)
      | _ \<Rightarrow> Inl ValueError)"

text \<open>\<^verbatim>\<open>shapely\<close>'s \<^verbatim>\<open>geom.bounds\<close>: \<open>(minx, miny, maxx, maxy)\<close> over the vertices.\<close>

definition polygon_bounds :: "polygon \<Rightarrow> real \<times> real \<times> real \<times> real" where
  "polygon_bounds p =
     (Min (set (map fst p)), Min (set (map snd p)), Max (set (map fst p)), Max (set (map snd p)))"

text \<open>
  \<^verbatim>\<open>mercantile.bounds(x, y, z)\<close>: \<open>(west, south, east, north)\<close> in degrees, with
  \<^verbatim>\<open>Z2 = math.pow(2, zoom)\<close> and the latitude
  \<^verbatim>\<open>math.degrees(math.atan(math.sinh(math.pi * (1 - 2 * ytile / Z2))))\<close>.
\<close>

definition degrees :: "real \<Rightarrow> real" where
  "degrees r = r * (180 / pi)"

definition tile_lon :: "int \<Rightarrow> int \<Rightarrow> real" where
  "tile_lon xtile zoom = real_of_int xtile / (2 powr real_of_int zoom) * 360 - 180"

definition tile_lat :: "int \<Rightarrow> int \<Rightarrow> real" where
  "tile_lat ytile zoom =
     degrees (arctan (sinh (pi * (1 - 2 * real_of_int ytile / (2 powr real_of_int zoom)))))"

definition bounds :: "int \<Rightarrow> int \<Rightarrow> int \<Rightarrow> real \<times> real \<times> real \<times> real" where
  "bounds xtile ytile zoom =
     (tile_lon xtile zoom, tile_lat (ytile + 1) zoom, tile_lon (xtile + 1) zoom, tile_lat ytile zoom)"

subsection \<open>\<^verbatim>\<open>tf_bbox_geo\<close>\<close>

text \<open>
  Line 247, \<^verbatim>\<open>pred = [bbox[1], bbox[0], bbox[3], bbox[2]]\<close>: a box of fewer than four
  numbers is an \<^verbatim>\<open>IndexError\<close>, entries beyond the fourth are ignored.
\<close>

definition tf_bbox_geo_pred :: "real list \<Rightarrow> error + real list" where
  "tf_bbox_geo_pred bbox =
     (if length bbox < 4 then Inl IndexError
      else Inr [bbox ! 1, bbox ! 0, bbox ! 3, bbox ! 2])"

text \<open>
  Lines 248 to 256. \<^verbatim>\<open>affine.Affine(a, b, c, d, e, f)\<close> has \<^verbatim>\<open>xoff = c\<close> and
  \<^verbatim>\<open>yoff = f\<close>, so \<^verbatim>\<open>a_lst\<close> is \<open>[width / 256, 0, 0, 0 - height / 256, b[0], b[3]]\<close>.
\<close>

definition tf_bbox_geo :: "real list \<Rightarrow> int tile \<Rightarrow> error + polygon" where
  "tf_bbox_geo bbox tile =
     (case tf_bbox_geo_pred bbox of
        Inl e \<Rightarrow> Inl e
      | Inr pred \<Rightarrow>
          (case bounds (tile_x tile) (tile_y tile) (tile_z tile) of
             (b0, b1, b2, b3) \<Rightarrow>
               let width = b2 - b0;
                   height = b3 - b1;
                   a_lst = [width / 256, 0, 0, 0 - height / 256, b0, b3]
               in affine_transform
                    (geometry_box (pred ! 0) (pred ! 1) (pred ! 2) (pred ! 3)) a_lst))"

text \<open>Line 210 of \<^verbatim>\<open>od_post_prediction\<close>: \<^verbatim>\<open>[c * 256 for c in bbox]\<close>.\<close>

definition bbox_256 :: "real list \<Rightarrow> real list" where
  "bbox_256 bbox = map (\<lambda>c. c * 256) bbox"

subsection \<open>JSON values and Python subscripts\<close>

text \<open>
  What \<^verbatim>\<open>json.loads\<close> and \<^verbatim>\<open>r.json()\<close> return. An object is a Python \<^verbatim>\<open>dict\<close>: its
  members in insertion order (for a parsed document, the textual order), keys distinct.
  \<^verbatim>\<open>json.dumps\<close> is not modelled: a request carries the JSON value itself.
\<close>

datatype json =
    JNull | JBool bool | JInt int | JFloat real | JStr string
  | JArr "json list" | JObj "(string \<times> json) list"

text \<open>
  \<^verbatim>\<open>v[k]\<close> for a string key: a missing key of a dict is a \<^verbatim>\<open>KeyError\<close>; a list or a
  string wants integer indices and the other values are not subscriptable, a
  \<^verbatim>\<open>TypeError\<close> both ways.
\<close>

fun getitem_key :: "json \<Rightarrow> string \<Rightarrow> error + json" where
  "getitem_key (JObj d) k = (case map_of d k of None \<Rightarrow> Inl KeyError | Some v \<Rightarrow> Inr v)"
| "getitem_key _ k = Inl TypeError"

text \<open>
  \<^verbatim>\<open>v[i]\<close> for an index that comes from \<^verbatim>\<open>range\<close> (never negative): out of range is an
  \<^verbatim>\<open>IndexError\<close>; an integer is never a key of a JSON object (\<^verbatim>\<open>KeyError\<close>).
\<close>

fun getitem_idx :: "json \<Rightarrow> nat \<Rightarrow> error + json" where
  "getitem_idx (JArr xs) i = (if i < length xs then Inr (xs ! i) else Inl IndexError)"
| "getitem_idx (JStr s) i = (if i < length s then Inr (JStr [s ! i]) else Inl IndexError)"
| "getitem_idx (JObj d) i = Inl KeyError"
| "getitem_idx _ i = Inl TypeError"

text \<open>\<^verbatim>\<open>v.get(k)\<close>: \<^verbatim>\<open>None\<close> for a missing key; only a dict has the method.\<close>

fun dict_get :: "json \<Rightarrow> string \<Rightarrow> error + json" where
  "dict_get (JObj d) k = Inr (case map_of d k of None \<Rightarrow> JNull | Some v \<Rightarrow> v)"
| "dict_get _ k = Inl AttributeError"

text \<open>\<^verbatim>\<open>v.values()\<close>: the values of a dict in insertion order.\<close>

fun dict_values :: "json \<Rightarrow> error + json list" where
  "dict_values (JObj d) = Inr (map snd d)"
| "dict_values _ = Inl AttributeError"

text \<open>\<^verbatim>\<open>xs[i]\<close> on a typed list, \<open>i\<close> from \<^verbatim>\<open>range\<close>.\<close>

definition py_index :: "'a list \<Rightarrow> nat \<Rightarrow> error + 'a" where
  "py_index xs i = (if i < length xs then Inr (xs ! i) else Inl IndexError)"

text \<open>Loops whose body can raise: the first exception ends the loop.\<close>

fun foldM_sum :: "('s \<Rightarrow> 'a \<Rightarrow> error + 's) \<Rightarrow> 's \<Rightarrow> 'a list \<Rightarrow> error + 's" where
  "foldM_sum f s [] = Inr s"
| "foldM_sum f s (x # xs) = (case f s x of Inl e \<Rightarrow> Inl e | Inr s' \<Rightarrow> foldM_sum f s' xs)"

subsection \<open>HTTP\<close>

text \<open>
  The remote services are a function \<open>net\<close> from the request to what \<^verbatim>\<open>requests.get\<close> or
  \<^verbatim>\<open>requests.post\<close> does with it: raise (\<open>Inl\<close>, say \<^verbatim>\<open>ConnectionError\<close>) or return a
  response. \<open>resp_json\<close> is what \<^verbatim>\<open>r.json()\<close> returns, \<open>None\<close> when the body is not a JSON
  document (a \<^verbatim>\<open>ValueError\<close>); its type is the schema of the endpoint. A function
  that talks to the network returns the requests it has issued, in order, beside its
  result.
\<close>

datatype request = GET string | POST string json

type_synonym bytes = "8 word list"

record 'j response =
  status_code :: int
  content :: bytes
  resp_json :: "'j option"

type_synonym 'j net = "request \<Rightarrow> error + 'j response"

text \<open>\<^verbatim>\<open>Response.raise_for_status\<close> raises for the statuses 400 to 599 and no other.\<close>

definition raise_for_status :: "'j response \<Rightarrow> error + unit" where
  "raise_for_status r = (if 400 \<le> status_code r \<and> status_code r < 600 then Inl HTTPError else Inr ())"

text \<open>The fields \<^verbatim>\<open>__init__\<close> sets.\<close>

record DownloadAndPredict =
  imagery :: string
  mlenabler_endpoint :: string
  prediction_endpoint :: string
  meta :: json

definition init :: "string \<Rightarrow> string \<Rightarrow> string \<Rightarrow> DownloadAndPredict" where
  "init imagery' mlenabler_endpoint' prediction_endpoint' =
     \<lparr>imagery = imagery', mlenabler_endpoint = mlenabler_endpoint',
      prediction_endpoint = prediction_endpoint', meta = JObj []\<rparr>"

subsection \<open>\<^verbatim>\<open>get_meta\<close>\<close>

text \<open>Line 51: the five nested subscripts, left to right.\<close>

definition serving_default_inputs :: "json \<Rightarrow> error + json" where
  "serving_default_inputs m =
     foldM_sum getitem_key m
       [''metadata'', ''signature_def'', ''signature_def'', ''serving_default'', ''inputs'']"

text \<open>
  \<open>get_meta\<close> returns the request it issued, the object (whose \<^verbatim>\<open>meta\<close> is assigned on
  line 49, before the subscripts can raise) and the model type or the exception.
\<close>

definition get_meta ::
  "json net \<Rightarrow> DownloadAndPredict \<Rightarrow> request list \<times> DownloadAndPredict \<times> (error + ModelType)" where
  "get_meta net self =
     (let rq = GET (prediction_endpoint self @ ''/metadata'') in
      case net rq of
        Inl e \<Rightarrow> ([rq], self, Inl e)
      | Inr r \<Rightarrow>
          (case raise_for_status r of
             Inl e \<Rightarrow> ([rq], self, Inl e)
           | Inr _ \<Rightarrow>
               (case resp_json r of
                  None \<Rightarrow> ([rq], self, Inl ValueError)
                | Some m \<Rightarrow>
                    ([rq], self\<lparr>meta := m\<rparr>,
                     case serving_default_inputs m of
                       Inl e \<Rightarrow> Inl e
                     | Inr inputs \<Rightarrow>
                         (case dict_get inputs ''inputs'' of
                            Inl e \<Rightarrow> Inl e
                          | Inr v \<Rightarrow>
                              if v \<noteq> JNull then Inr OBJECT_DETECT else Inr CLASSIFICATION)))))"

subsection \<open>\<^verbatim>\<open>get_tiles\<close>\<close>

text \<open>
  An SQS event is \<^verbatim>\<open>{'Records': [{'body': ...}, ...]}\<close>. \<^verbatim>\<open>json.loads\<close> is not modelled:
  a record holds its body parsed. \<^verbatim>\<open>Tile(*values)\<close> is a \<^verbatim>\<open>TypeError\<close> unless there are
  exactly three values, which become \<^verbatim>\<open>x\<close>, \<^verbatim>\<open>y\<close>, \<^verbatim>\<open>z\<close> by position.
\<close>

record sqs_record =
  body :: json

record SQSEvent =
  Records :: "sqs_record list"

definition Tile_star :: "'a list \<Rightarrow> error + 'a tile" where
  "Tile_star vs = (case vs of [a, b, c] \<Rightarrow> Inr (Tile a b c) | _ \<Rightarrow> Inl TypeError)"

definition get_tiles :: "SQSEvent \<Rightarrow> error + json tile list" where
  "get_tiles event =
     foldM_sum
       (\<lambda>acc record'.
          case dict_values (body record') of
            Inl e \<Rightarrow> Inl e
          | Inr vs \<Rightarrow> (case Tile_star vs of Inl e \<Rightarrow> Inl e | Inr t \<Rightarrow> Inr (acc @ [t])))
       [] (Records event)"


subsection \<open>\<^verbatim>\<open>mercantile.quadkey\<close>\<close>

text \<open>
  \<^verbatim>\<open>for z in range(zoom, 0, -1)\<close>: the digit of level \<open>z\<close> is 1 if \<^verbatim>\<open>xtile & mask\<close> is not
  zero, plus 2 if \<^verbatim>\<open>ytile & mask\<close> is not zero, with \<^verbatim>\<open>mask = 1 << (z - 1)\<close>.
\<close>

definition str_digit :: "nat \<Rightarrow> char" where
  "str_digit d = (if d = 0 then CHR ''0'' else if d = 1 then CHR ''1''
                  else if d = 2 then CHR ''2'' else CHR ''3'')"

definition quadkey_digit :: "int \<Rightarrow> int \<Rightarrow> nat \<Rightarrow> nat" where
  "quadkey_digit xtile ytile z =
     (let mask = push_bit (z - 1) (1::int)
      in (if and xtile mask \<noteq> 0 then 1 else 0) + (if and ytile mask \<noteq> 0 then 2 else 0))"

fun quadkey_loop :: "int \<Rightarrow> int \<Rightarrow> nat \<Rightarrow> string" where
  "quadkey_loop xtile ytile 0 = []"
| "quadkey_loop xtile ytile (Suc n) =
     str_digit (quadkey_digit xtile ytile (Suc n)) # quadkey_loop xtile ytile n"

definition quadkey :: "int \<Rightarrow> int \<Rightarrow> int \<Rightarrow> string" where
  "quadkey xtile ytile zoom = quadkey_loop xtile ytile (nat zoom)"

subsection \<open>Prediction records\<close>

text \<open>
  A record of the result document is a Python dict with the keys \<^verbatim>\<open>quadkey\<close>,
  \<^verbatim>\<open>predictions\<close>, \<^verbatim>\<open>prediction_id\<close> and, from the detection path only,
  \<^verbatim>\<open>quadkey_geom\<close>: \<open>None\<close> is the key absent. \<^verbatim>\<open>geojson.Feature(geometry=g).geometry\<close>
  is the polygon \<open>g\<close> as a GeoJSON mapping, here the polygon itself.
\<close>

record 'v PredictionRecord =
  rec_quadkey :: string
  rec_quadkey_geom :: "polygon option"
  rec_predictions :: "string \<rightharpoonup> 'v"
  rec_prediction_id :: string

record 'v document =
  predictionId :: string
  predictions :: "'v PredictionRecord list"

subsection \<open>\<^verbatim>\<open>cl_post_prediction\<close>\<close>

text \<open>
  The predict endpoint answers \<^verbatim>\<open>{"predictions": [...]}\<close>: \<open>resp_json\<close> of its response
  is the list under \<^verbatim>\<open>"predictions"\<close>, \<open>None\<close> when the key is missing. For a
  classification model an entry is a vector of scores.
\<close>

type_synonym 'p predict_json = "'p list option"

text \<open>Lines 172 to 175: \<^verbatim>\<open>pred_dict[inferences[j]] = preds[i][j]\<close> for \<open>j\<close> in order.\<close>

definition cl_pred_dict :: "string list \<Rightarrow> 'v list \<Rightarrow> error + (string \<rightharpoonup> 'v)" where
  "cl_pred_dict inferences vec =
     foldM_sum
       (\<lambda>pred_dict j.
          case py_index inferences j of
            Inl e \<Rightarrow> Inl e
          | Inr label \<Rightarrow> Inr (pred_dict(label \<mapsto> vec ! j)))
       Map.empty [0..<length vec]"

text \<open>The body of the loop over \<open>i\<close>, lines 172 to 181; \<open>i < len(tiles)\<close> there.\<close>

definition cl_record ::
  "'v list list \<Rightarrow> int tile list \<Rightarrow> string \<Rightarrow> string list \<Rightarrow> 'v PredictionRecord list \<Rightarrow> nat
     \<Rightarrow> error + 'v PredictionRecord list" where
  "cl_record preds tiles prediction_id' inferences pred_list i =
     (case py_index preds i of
        Inl e \<Rightarrow> Inl e
      | Inr vec \<Rightarrow>
          (case cl_pred_dict inferences vec of
             Inl e \<Rightarrow> Inl e
           | Inr pred_dict \<Rightarrow>
               Inr (pred_list @
                 [\<lparr>rec_quadkey = quadkey (tile_x (tiles ! i)) (tile_y (tiles ! i)) (tile_z (tiles ! i)),
                   rec_quadkey_geom = None,
                   rec_predictions = pred_dict,
                   rec_prediction_id = prediction_id'\<rparr>])))"

definition cl_post_prediction ::
  "('v list) predict_json net \<Rightarrow> DownloadAndPredict \<Rightarrow> json \<Rightarrow> int tile list \<Rightarrow> string
     \<Rightarrow> string list \<Rightarrow> request list \<times> (error + 'v document)" where
  "cl_post_prediction net self payload tiles prediction_id' inferences =
     (let rq = POST (prediction_endpoint self @ '':predict'') payload in
      case net rq of
        Inl e \<Rightarrow> ([rq], Inl e)
      | Inr r \<Rightarrow>
          (case raise_for_status r of
             Inl e \<Rightarrow> ([rq], Inl e)
           | Inr _ \<Rightarrow>
               (case resp_json r of
                  None \<Rightarrow> ([rq], Inl ValueError)
                | Some None \<Rightarrow> ([rq], Inl KeyError)
                | Some (Some preds) \<Rightarrow>
                    ([rq],
                     case foldM_sum (cl_record preds tiles prediction_id' inferences) []
                            [0..<length tiles] of
                       Inl e \<Rightarrow> Inl e
                     | Inr pred_list \<Rightarrow>
                         Inr \<lparr>predictionId = prediction_id', predictions = pred_list\<rparr>))))"

subsection \<open>\<^verbatim>\<open>od_post_prediction\<close>\<close>

text \<open>
  For a detection model an entry of \<^verbatim>\<open>"predictions"\<close> is a dict; a field is \<open>None\<close> when
  its key is missing (a \<^verbatim>\<open>KeyError\<close> where the code reads it).
\<close>

record od_preds =
  num_detections :: "real option"
  detection_scores :: "real list option"
  detection_boxes :: "real list list option"

text \<open>\<^verbatim>\<open>int(f)\<close> truncates toward zero.\<close>

definition py_int :: "real \<Rightarrow> int" where
  "py_int f = (if 0 \<le> f then \<lfloor>f\<rfloor> else \<lceil>f\<rceil>)"

text \<open>\<^verbatim>\<open>xs[:n]\<close>: a negative \<open>n\<close> counts from the end, and nothing is out of range.\<close>

definition py_slice_to :: "'a list \<Rightarrow> int \<Rightarrow> 'a list" where
  "py_slice_to xs n = (if 0 \<le> n then take (nat n) xs else take (length xs - nat (- n)) xs)"

text \<open>
  Lines 201 to 229, what one tile's prediction adds to \<^verbatim>\<open>pred_list\<close>. \<^verbatim>\<open>continue\<close> leaves
  the list as it is. \<open>j < len(bboxes_256)\<close> in the inner loop.
\<close>

definition od_records ::
  "od_preds \<Rightarrow> int tile \<Rightarrow> string \<Rightarrow> real PredictionRecord list \<Rightarrow> error + real PredictionRecord list" where
  "od_records preds tile prediction_id' pred_list =
     (case num_detections preds of
        None \<Rightarrow> Inl KeyError
      | Some n \<Rightarrow>
          if n = 0 then Inr pred_list
          else
            (case detection_scores preds of
               None \<Rightarrow> Inl KeyError
             | Some all_scores \<Rightarrow>
                 (case detection_boxes preds of
                    None \<Rightarrow> Inl KeyError
                  | Some all_boxes \<Rightarrow>
                      let scores = py_slice_to all_scores (py_int n);
                          bboxes = py_slice_to all_boxes (py_int n);
                          bboxes_256 = map bbox_256 bboxes
                      in foldM_sum
                           (\<lambda>acc j.
                              case tf_bbox_geo (bboxes_256 ! j) tile of
                                Inl e \<Rightarrow> Inl e
                              | Inr bbox \<Rightarrow>
                                  (case py_index all_scores j of
                                     Inl e \<Rightarrow> Inl e
                                   | Inr score \<Rightarrow>
                                       Inr (acc @
                                         [\<lparr>rec_quadkey =
                                             quadkey (tile_x tile) (tile_y tile) (tile_z tile),
                                           rec_quadkey_geom = Some bbox,
                                           rec_predictions = [''default'' \<mapsto> score],
                                           rec_prediction_id = prediction_id'\<rparr>])))
                           pred_list [0..<length bboxes_256])))"

text \<open>
  The body of the loop over \<open>i\<close>, lines 192 to 199, then \<open>od_records\<close>: it returns the
  request it issued, if any, and the extended \<^verbatim>\<open>pred_list\<close>.
\<close>

definition od_tile ::
  "od_preds predict_json net \<Rightarrow> DownloadAndPredict \<Rightarrow> json \<Rightarrow> int tile list \<Rightarrow> string
     \<Rightarrow> real PredictionRecord list \<Rightarrow> nat \<Rightarrow> request list \<times> (error + real PredictionRecord list)" where
  "od_tile net self payload tiles prediction_id' pred_list i =
     (case getitem_key payload ''instances'' of
        Inl e \<Rightarrow> ([], Inl e)
      | Inr instances \<Rightarrow>
          (case getitem_idx instances i of
             Inl e \<Rightarrow> ([], Inl e)
           | Inr instance' \<Rightarrow>
               let rq = POST (prediction_endpoint self @ '':predict'')
                          (JObj [(''instances'', JArr [instance'])]) in
               (case net rq of
                  Inl e \<Rightarrow> ([rq], Inl e)
                | Inr r \<Rightarrow>
                    (case raise_for_status r of
                       Inl e \<Rightarrow> ([rq], Inl e)
                     | Inr _ \<Rightarrow>
                         (case resp_json r of
                            None \<Rightarrow> ([rq], Inl ValueError)
                          | Some None \<Rightarrow> ([rq], Inl KeyError)
                          | Some (Some ps) \<Rightarrow>
                              (case py_index ps 0 of
                                 Inl e \<Rightarrow> ([rq], Inl e)
                               | Inr preds \<Rightarrow>
                                   ([rq], od_records preds (tiles ! i) prediction_id' pred_list)))))))"

text \<open>Loops that issue requests: the requests of all rounds, up to the first exception.\<close>

fun foldM_io ::
  "('s \<Rightarrow> 'a \<Rightarrow> request list \<times> (error + 's)) \<Rightarrow> 's \<Rightarrow> 'a list \<Rightarrow> request list \<times> (error + 's)" where
  "foldM_io f s [] = ([], Inr s)"
| "foldM_io f s (x # xs) =
     (case f s x of
        (rqs, Inl e) \<Rightarrow> (rqs, Inl e)
      | (rqs, Inr s') \<Rightarrow> (case foldM_io f s' xs of (rqs', res) \<Rightarrow> (rqs @ rqs', res)))"

definition od_post_prediction ::
  "od_preds predict_json net \<Rightarrow> DownloadAndPredict \<Rightarrow> json \<Rightarrow> int tile list \<Rightarrow> string
     \<Rightarrow> request list \<times> (error + real document)" where
  "od_post_prediction net self payload tiles prediction_id' =
     (case foldM_io (od_tile net self payload tiles prediction_id') [] [0..<length tiles] of
        (rqs, Inl e) \<Rightarrow> (rqs, Inl e)
      | (rqs, Inr pred_list) \<Rightarrow>
          (rqs, Inr \<lparr>predictionId = prediction_id', predictions = pred_list\<rparr>))"

subsection \<open>Fetching imagery\<close>

text \<open>
  \<^verbatim>\<open>get_images\<close> and \<^verbatim>\<open>get_supertiles_images\<close> are declared with two parameters,
  \<^verbatim>\<open>(self, tiles)\<close>, under \<^verbatim>\<open>@staticmethod\<close>. Python binds the arguments of a call to the
  parameters before the body runs (for a generator function too): a call with a number
  of arguments other than two is a \<^verbatim>\<open>TypeError\<close>. Nothing checks what the two arguments
  are, so an argument is either an object of the class or a list of tiles.
\<close>

datatype pyarg = ASelf DownloadAndPredict | ATiles "int tile list"

text \<open>
  Reading a method through an object, \<^verbatim>\<open>self.f\<close>: a plain function of the class is
  bound, the object becomes its first argument; a \<^verbatim>\<open>staticmethod\<close> is returned as it
  is, the call passes the written arguments only.
\<close>

definition getattr_method :: "(pyarg list \<Rightarrow> 'r) \<Rightarrow> DownloadAndPredict \<Rightarrow> pyarg list \<Rightarrow> 'r" where
  "getattr_method f self args = f (ASelf self # args)"

definition getattr_staticmethod :: "(pyarg list \<Rightarrow> 'r) \<Rightarrow> DownloadAndPredict \<Rightarrow> pyarg list \<Rightarrow> 'r" where
  "getattr_staticmethod f self args = f args"

text \<open>
  \<^verbatim>\<open>self.imagery.format(x=tile.x, y=tile.y, z=tile.z)\<close>: \<^verbatim>\<open>str.format\<close> is the parameter
  \<open>format\<close> of the model, from the template and the three numbers to the URL or the
  exception. Reading \<^verbatim>\<open>imagery\<close> off a list is an \<^verbatim>\<open>AttributeError\<close>.
\<close>

type_synonym formatter = "string \<Rightarrow> int \<Rightarrow> int \<Rightarrow> int \<Rightarrow> error + string"

definition imagery_url :: "formatter \<Rightarrow> pyarg \<Rightarrow> int tile \<Rightarrow> error + string" where
  "imagery_url format self tile =
     (case self of
        ATiles _ \<Rightarrow> Inl AttributeError
      | ASelf obj \<Rightarrow> format (imagery obj) (tile_x tile) (tile_y tile) (tile_z tile))"

text \<open>\<^verbatim>\<open>for tile in tiles\<close>: an object of the class is not iterable.\<close>

definition iter_tiles :: "pyarg \<Rightarrow> error + int tile list" where
  "iter_tiles tiles = (case tiles of ASelf _ \<Rightarrow> Inl TypeError | ATiles ts \<Rightarrow> Inr ts)"

text \<open>
  A generator is modelled by the list of everything it yields when it is drained, as
  \<^verbatim>\<open>zip(*tiles_and_images)\<close> drains it; an exception on the way loses the pairs.
  Lines 81 to 85, the body of \<^verbatim>\<open>get_images\<close> for one tile.
\<close>

definition get_images_tile ::
  "unit net \<Rightarrow> formatter \<Rightarrow> pyarg \<Rightarrow> (int tile \<times> bytes) list \<Rightarrow> int tile
     \<Rightarrow> request list \<times> (error + (int tile \<times> bytes) list)" where
  "get_images_tile net format self yielded tile =
     (case imagery_url format self tile of
        Inl e \<Rightarrow> ([], Inl e)
      | Inr url \<Rightarrow>
          (case net (GET url) of
             Inl e \<Rightarrow> ([GET url], Inl e)
           | Inr r \<Rightarrow> ([GET url], Inr (yielded @ [(tile, content r)]))))"

definition get_images ::
  "unit net \<Rightarrow> formatter \<Rightarrow> pyarg list \<Rightarrow> request list \<times> (error + (int tile \<times> bytes) list)" where
  "get_images net format args =
     (case args of
        [self, tiles] \<Rightarrow>
          (case iter_tiles tiles of
             Inl e \<Rightarrow> ([], Inl e)
           | Inr ts \<Rightarrow> foldM_io (get_images_tile net format self) [] ts)
      | _ \<Rightarrow> ([], Inl TypeError))"

text \<open>
  \<^verbatim>\<open>mercantile.children(tile, zoom=1 + tile.z)\<close>: one level down, in the library's
  order; \<^verbatim>\<open>tile_indices.sort()\<close> orders the named tuples as tuples \<open>(x, y, z)\<close>.
\<close>

definition children :: "int tile \<Rightarrow> int tile list" where
  "children tile =
     (let xtile = tile_x tile; ytile = tile_y tile; ztile = tile_z tile
      in [Tile (xtile * 2) (ytile * 2) (ztile + 1),
          Tile (xtile * 2 + 1) (ytile * 2) (ztile + 1),
          Tile (xtile * 2 + 1) (ytile * 2 + 1) (ztile + 1),
          Tile (xtile * 2) (ytile * 2 + 1) (ztile + 1)])"

definition sort_tiles :: "int tile list \<Rightarrow> int tile list" where
  "sort_tiles ts = sort_key (\<lambda>t. (tile_x t, tile_y t, tile_z t)) ts"

text \<open>\<^verbatim>\<open>rasterio.windows.Window(col_off, row_off, width, height)\<close>.\<close>

datatype window = Window (col_off: int) (row_off: int) (width: int) (height: int)

text \<open>
  Lines 97 to 106: the four pairs one opened dataset yields. \<open>read\<close> is
  \<^verbatim>\<open>dataset.read(window=...)\<close>. \<^verbatim>\<open>tile_indices\<close> has four entries and \<open>i + j \<le> 2\<close>.
\<close>

definition supertile_pairs :: "('ds \<Rightarrow> window \<Rightarrow> 'img) \<Rightarrow> 'ds \<Rightarrow> int tile \<Rightarrow> (int tile \<times> 'img) list" where
  "supertile_pairs read dataset tile =
     (let tile_indices = sort_tiles (children tile)
      in concat
           (map (\<lambda>i. map (\<lambda>j. (tile_indices ! (i + j),
                                read dataset (Window (int i * 256) (int j * 256) 256 256)))
                      [0..<2])
              [0..<2]))"

text \<open>
  Lines 91 to 106 for one tile. \<open>open_dataset\<close> is
  \<^verbatim>\<open>MemoryFile(BytesIO(r.content)).open()\<close>, which raises on bytes that are no raster.
\<close>

definition get_supertiles_images_tile ::
  "unit net \<Rightarrow> formatter \<Rightarrow> (bytes \<Rightarrow> error + 'ds) \<Rightarrow> ('ds \<Rightarrow> window \<Rightarrow> 'img) \<Rightarrow> pyarg
     \<Rightarrow> (int tile \<times> 'img) list \<Rightarrow> int tile \<Rightarrow> request list \<times> (error + (int tile \<times> 'img) list)" where
  "get_supertiles_images_tile net format open_dataset read self yielded tile =
     (case imagery_url format self tile of
        Inl e \<Rightarrow> ([], Inl e)
      | Inr url \<Rightarrow>
          (case net (GET url) of
             Inl e \<Rightarrow> ([GET url], Inl e)
           | Inr r \<Rightarrow>
               (case open_dataset (content r) of
                  Inl e \<Rightarrow> ([GET url], Inl e)
                | Inr dataset \<Rightarrow> ([GET url], Inr (yielded @ supertile_pairs read dataset tile)))))"

definition get_supertiles_images ::
  "unit net \<Rightarrow> formatter \<Rightarrow> (bytes \<Rightarrow> error + 'ds) \<Rightarrow> ('ds \<Rightarrow> window \<Rightarrow> 'img) \<Rightarrow> pyarg list
     \<Rightarrow> request list \<times> (error + (int tile \<times> 'img) list)" where
  "get_supertiles_images net format open_dataset read args =
     (case args of
        [self, tiles] \<Rightarrow>
          (case iter_tiles tiles of
             Inl e \<Rightarrow> ([], Inl e)
           | Inr ts \<Rightarrow> foldM_io (get_supertiles_images_tile net format open_dataset read self) [] ts)
      | _ \<Rightarrow> ([], Inl TypeError))"

subsection \<open>Building the payload\<close>

text \<open>
  \<^verbatim>\<open>tile_indices, images = zip(*tiles_and_images)\<close>: with no pair at all \<^verbatim>\<open>zip\<close> yields
  nothing and the unpacking is a \<^verbatim>\<open>ValueError\<close>.
\<close>

definition unzip_pairs :: "('a \<times> 'b) list \<Rightarrow> error + 'a list \<times> 'b list" where
  "unzip_pairs ps = (if ps = [] then Inl ValueError else Inr (map fst ps, map snd ps))"

text \<open>
  Lines 124 to 134, the same in both payload functions. \<open>b64\<close> is
  \<^verbatim>\<open>b64encode_image\<close>, base64 as text.
\<close>

definition build_payload ::
  "('img \<Rightarrow> string) \<Rightarrow> ModelType \<Rightarrow> (int tile \<times> 'img) list \<Rightarrow> error + int tile list \<times> json" where
  "build_payload b64 model_type tiles_and_images =
     (case unzip_pairs tiles_and_images of
        Inl e \<Rightarrow> Inl e
      | Inr (tile_indices, images) \<Rightarrow>
          let instances =
                (if model_type = CLASSIFICATION
                 then map (\<lambda>img. JObj [(''image_bytes'', JObj [(''b64'', JStr (b64 img))])]) images
                 else map (\<lambda>img. JObj [(''inputs'', JObj [(''b64'', JStr (b64 img))])]) images);
              payload = JObj [(''instances'', JArr instances)]
          in Inr (tile_indices, payload))"

text \<open>
  Line 121, \<^verbatim>\<open>self.get_images(tiles)\<close>, and line 148, \<^verbatim>\<open>self.get_supertiles_images(tiles)\<close>:
  the static method read through the object, called with the one argument \<^verbatim>\<open>tiles\<close>.
\<close>

definition get_prediction_payload ::
  "unit net \<Rightarrow> formatter \<Rightarrow> (bytes \<Rightarrow> string) \<Rightarrow> DownloadAndPredict \<Rightarrow> int tile list \<Rightarrow> ModelType
     \<Rightarrow> request list \<times> (error + int tile list \<times> json)" where
  "get_prediction_payload net format b64 self tiles model_type =
     (case getattr_staticmethod (get_images net format) self [ATiles tiles] of
        (rqs, Inl e) \<Rightarrow> (rqs, Inl e)
      | (rqs, Inr tiles_and_images) \<Rightarrow> (rqs, build_payload b64 model_type tiles_and_images))"

definition get_prediction_payload_supertiles ::
  "unit net \<Rightarrow> formatter \<Rightarrow> (bytes \<Rightarrow> error + 'ds) \<Rightarrow> ('ds \<Rightarrow> window \<Rightarrow> 'img) \<Rightarrow> ('img \<Rightarrow> string)
     \<Rightarrow> DownloadAndPredict \<Rightarrow> int tile list \<Rightarrow> ModelType
     \<Rightarrow> request list \<times> (error + int tile list \<times> json)" where
  "get_prediction_payload_supertiles net format open_dataset read b64 self tiles model_type =
     (case getattr_staticmethod (get_supertiles_images net format open_dataset read) self
             [ATiles tiles] of
        (rqs, Inl e) \<Rightarrow> (rqs, Inl e)
      | (rqs, Inr tiles_and_images) \<Rightarrow> (rqs, build_payload b64 model_type tiles_and_images))"

subsection \<open>The specification's wording, for comparison with the code\<close>

text \<open>
  Python's \<^verbatim>\<open>dict(pairs)\<close>, so that \<open>dict_of_pairs (zip labels vector)\<close> is the
  specification's "zips the label list against the prediction vector": a label that
  occurs twice keeps its last score.
\<close>

definition dict_of_pairs :: "('k \<times> 'v) list \<Rightarrow> ('k \<rightharpoonup> 'v)" where
  "dict_of_pairs ps = foldl (\<lambda>d (k, v). d(k \<mapsto> v)) Map.empty ps"

text \<open>The record the specification wants for the \<open>i\<close>-th tile of a classification batch.\<close>

definition cl_expected ::
  "'v list list \<Rightarrow> int tile list \<Rightarrow> string \<Rightarrow> string list \<Rightarrow> nat \<Rightarrow> 'v PredictionRecord" where
  "cl_expected preds tiles prediction_id' inferences i =
     \<lparr>rec_quadkey = quadkey (tile_x (tiles ! i)) (tile_y (tiles ! i)) (tile_z (tiles ! i)),
      rec_quadkey_geom = None,
      rec_predictions = dict_of_pairs (zip inferences (preds ! i)),
      rec_prediction_id = prediction_id'\<rparr>"

text \<open>
  A message in the format of the docstring of \<^verbatim>\<open>get_tiles\<close>,
  \<^verbatim>\<open>{ "x": 4, "y": 5, "z": 3 }\<close>: the three fields in the order x, y, z.
\<close>

definition xyz_message :: "int \<times> int \<times> int \<Rightarrow> sqs_record" where
  "xyz_message m =
     (case m of (x, y, z) \<Rightarrow> \<lparr>body = JObj [(''x'', JInt x), (''y'', JInt y), (''z'', JInt z)]\<rparr>)"

subsection \<open>Concrete services and inputs\<close>

text \<open>A metadata document whose \<^verbatim>\<open>serving_default\<close> signature has the given input map.\<close>

definition meta_with_inputs :: "json \<Rightarrow> json" where
  "meta_with_inputs inputs =
     JObj [(''metadata'', JObj [(''signature_def'', JObj [(''signature_def'',
       JObj [(''serving_default'', JObj [(''inputs'', inputs)])])])])]"

text \<open>A metadata endpoint that answers every request with the given status and document.\<close>

definition meta_net_example :: "int \<Rightarrow> json \<Rightarrow> json net" where
  "meta_net_example status m = (\<lambda>rq. Inr \<lparr>status_code = status, content = [], resp_json = Some m\<rparr>)"

text \<open>
  An imagery endpoint that answers every request with the given status and body, and
  the URL template of tile 3/4/5 already filled in.
\<close>

definition imagery_net_example :: "int \<Rightarrow> bytes \<Rightarrow> unit net" where
  "imagery_net_example status b = (\<lambda>rq. Inr \<lparr>status_code = status, content = b, resp_json = None\<rparr>)"

definition format_example :: formatter where
  "format_example template x y z = Inr ''http://tiles/3/4/5''"

definition self_example :: DownloadAndPredict where
  "self_example = init ''http://tiles/{z}/{x}/{y}'' ''http://store'' ''http://tfs''"

text \<open>A classification server that answers with the given vectors.\<close>

definition cl_net_example :: "real list list \<Rightarrow> (real list) predict_json net" where
  "cl_net_example vecs = (\<lambda>rq. Inr \<lparr>status_code = 200, content = [], resp_json = Some (Some vecs)\<rparr>)"

text \<open>A detection server that reports \<open>n\<close> detections and sends three scores and boxes.\<close>

definition od_preds_example :: "real \<Rightarrow> od_preds" where
  "od_preds_example n =
     \<lparr>num_detections = Some n,
      detection_scores = Some [0.9, 0.8, 0.7],
      detection_boxes = Some [[0.25, 0.25, 0.75, 0.75], [0, 0, 1, 1], [0, 0, 0.5, 0.5]]\<rparr>"

definition od_net_example :: "real \<Rightarrow> od_preds predict_json net" where
  "od_net_example n =
     (\<lambda>rq. Inr \<lparr>status_code = 200, content = [], resp_json = Some (Some [od_preds_example n])\<rparr>)"

definition instance_example :: json where
  "instance_example = JObj [(''inputs'', JObj [(''b64'', JStr ''aGk='')])]"

definition payload_example :: json where
  "payload_example = JObj [(''instances'', JArr [instance_example])]"

subsection \<open>The specification's detection records\<close>

text \<open>
  A detection box as the server sends it, \<open>(ymin, xmin, ymax, xmax)\<close>, and the JSON list
  of a quadruple.
\<close>

type_synonym box4 = "real \<times> real \<times> real \<times> real"

definition box_list :: "box4 \<Rightarrow> real list" where
  "box_list box = (case box of (a, b, c, d) \<Rightarrow> [a, b, c, d])"

text \<open>
  The order the specification gives for the two steps: reorder
  \<open>(ymin, xmin, ymax, xmax)\<close> to \<open>(xmin, ymin, xmax, ymax)\<close> first, then scale by the
  raster size 256 to get pixel coordinates.
\<close>

definition spec_reorder :: "box4 \<Rightarrow> box4" where
  "spec_reorder box = (case box of (ymin, xmin, ymax, xmax) \<Rightarrow> (xmin, ymin, xmax, ymax))"

definition spec_scale :: "box4 \<Rightarrow> box4" where
  "spec_scale rect = (case rect of (x0, y0, x1, y1) \<Rightarrow> (256 * x0, 256 * y0, 256 * x1, 256 * y1))"

definition spec_pixel_rect :: "box4 \<Rightarrow> box4" where
  "spec_pixel_rect box = spec_scale (spec_reorder box)"

text \<open>
  The specification's GeoTransformer on a pixel rectangle \<open>(x0, y0, x1, y1)\<close> of a tile:
  \<open>lon(col) = west + col * pixel_width\<close> and \<open>lat(row) = north - row * pixel_height\<close>
  on the corners of the rectangle, taken in the order of \<open>geometry_box\<close>.
\<close>

definition geo_transform :: "box4 \<Rightarrow> int tile \<Rightarrow> polygon" where
  "geo_transform rect tile =
     (case rect of (x0, y0, x1, y1) \<Rightarrow>
        (case bounds (tile_x tile) (tile_y tile) (tile_z tile) of
           (west, south, east, north) \<Rightarrow>
             let pixel_width = (east - west) / 256;
                 pixel_height = (north - south) / 256
             in map (\<lambda>(col, row). (west + col * pixel_width, north - row * pixel_height))
                  (geometry_box x0 y0 x1 y1)))"

text \<open>
  The record the specification wants for one detection: the quadkey of the tile, the
  polygon of the box's pixel rectangle, the score under \<^verbatim>\<open>default\<close>, the shared id.
\<close>

definition od_expected :: "int tile \<Rightarrow> string \<Rightarrow> box4 \<Rightarrow> real \<Rightarrow> real PredictionRecord" where
  "od_expected tile prediction_id' box score =
     \<lparr>rec_quadkey = quadkey (tile_x tile) (tile_y tile) (tile_z tile),
      rec_quadkey_geom = Some (geo_transform (spec_pixel_rect box) tile),
      rec_predictions = [''default'' \<mapsto> score],
      rec_prediction_id = prediction_id'\<rparr>"

section \<open>The geographic transform\<close>

lemma tile_lon_mono: "tile_lon x z \<le> tile_lon (x + 1) z"
  by (simp add: tile_lon_def divide_right_mono)

lemma tile_lat_antimono: "tile_lat (y + 1) z \<le> tile_lat y z"
proof -
  have "2 * real_of_int y / (2 powr real_of_int z) \<le> 2 * real_of_int (y + 1) / (2 powr real_of_int z)"
    by (simp add: divide_right_mono)
  then have "pi * (1 - 2 * real_of_int (y + 1) / (2 powr real_of_int z))
          \<le> pi * (1 - 2 * real_of_int y / (2 powr real_of_int z))"
    by (intro mult_left_mono) simp_all
  then have "arctan (sinh (pi * (1 - 2 * real_of_int (y + 1) / (2 powr real_of_int z))))
          \<le> arctan (sinh (pi * (1 - 2 * real_of_int y / (2 powr real_of_int z))))"
    by (simp add: arctan_le_iff)
  then show ?thesis
    unfolding tile_lat_def degrees_def by (intro mult_right_mono) simp_all
qed

text \<open>Pixel row 0 is the northern edge: the ring starts at the north-east corner.\<close>

lemma tf_bbox_geo_full_tile:
  "tf_bbox_geo [0, 0, 256, 256] (Tile x y z) =
     Inr [(tile_lon (x + 1) z, tile_lat y z), (tile_lon (x + 1) z, tile_lat (y + 1) z),
          (tile_lon x z, tile_lat (y + 1) z), (tile_lon x z, tile_lat y z),
          (tile_lon (x + 1) z, tile_lat y z)]"
  by (simp add: tf_bbox_geo_def tf_bbox_geo_pred_def bounds_def affine_transform_def geometry_box_def)

text \<open>
  C10. For every tile \<open>(x, y, z)\<close> with \<open>0 \<le> x, y < 2^z\<close>, \<open>tf_bbox_geo\<close> applied to the
  full-tile pixel rectangle \<open>(0, 0, 256, 256)\<close> returns a polygon whose bounding box is
  the tile's \<open>(west, south, east, north)\<close> as \<^verbatim>\<open>mercantile.bounds\<close> gives them. Floats
  are read as real numbers.
\<close>

theorem full_tile_rectangle_bounds:
  assumes "0 \<le> z" and "0 \<le> x" and "x < 2 ^ nat z" and "0 \<le> y" and "y < 2 ^ nat z"
  shows "map_sum id polygon_bounds (tf_bbox_geo [0, 0, 256, 256] (Tile x y z)) = Inr (bounds x y z)"
  using tile_lon_mono [of x z] tile_lat_antimono [of y z]
  by (simp add: tf_bbox_geo_full_tile polygon_bounds_def bounds_def min_def max_def)

theorem full_tile_rectangle_bounds_witness:
  "(0::int) \<le> 3 \<and> (0::int) \<le> 4 \<and> (4::int) < 2 ^ nat 3 \<and> (0::int) \<le> 5 \<and> (5::int) < 2 ^ nat 3
   \<and> map_sum id polygon_bounds (tf_bbox_geo [0, 0, 256, 256] (Tile 4 5 3)) = Inr (bounds 4 5 3)"
  using full_tile_rectangle_bounds [of 3 4 5] by simp

section \<open>Loops that can raise\<close>

lemma foldM_sum_append:
  "foldM_sum f s (xs @ ys) = (case foldM_sum f s xs of Inl e \<Rightarrow> Inl e | Inr s' \<Rightarrow> foldM_sum f s' ys)"
  by (induction xs arbitrary: s) (auto split: sum.splits)

lemma foldM_sum_error:
  assumes "\<And>s x e. f s x = Inl e \<Longrightarrow> e = E" and "foldM_sum f s xs = Inl e"
  shows "e = E"
  using assms(2)
proof (induction xs arbitrary: s)
  case Nil
  then show ?case by simp
next
  case (Cons x xs)
  then show ?case using assms(1) by (cases "f s x") auto
qed

lemma foldM_sum_fails:
  assumes "x \<in> set xs" and "\<And>s. \<exists>e. f s x = Inl e"
  shows "\<exists>e. foldM_sum f s xs = Inl e"
  using assms(1)
proof (induction xs arbitrary: s)
  case Nil
  then show ?case by simp
next
  case (Cons y ys)
  show ?case
  proof (cases "f s y")
    case (Inl e)
    then show ?thesis by simp
  next
    case (Inr s')
    show ?thesis
    proof (cases "x = y")
      case True
      with assms(2) [of s] Inr show ?thesis by auto
    next
      case False
      with Cons have "\<exists>e. foldM_sum f s' ys = Inl e" by auto
      with Inr show ?thesis by simp
    qed
  qed
qed

lemma foldM_sum_map:
  assumes "\<And>s x. x \<in> set xs \<Longrightarrow> f s x = Inr (s @ [g x])"
  shows "foldM_sum f s xs = Inr (s @ map g xs)"
  using assms by (induction xs arbitrary: s) auto

lemma foldM_sum_grows:
  assumes "\<And>s x s'. f s x = Inr s' \<Longrightarrow> \<exists>r. s' = s @ [r]" and "foldM_sum f s xs = Inr s'"
  shows "\<exists>new. s' = s @ new \<and> length new = length xs"
  using assms(2)
proof (induction xs arbitrary: s)
  case Nil
  then show ?case by simp
next
  case (Cons x xs)
  from Cons.prems obtain s1 where s1: "f s x = Inr s1" and rest: "foldM_sum f s1 xs = Inr s'"
    by (cases "f s x") auto
  from assms(1) [OF s1] obtain r where r: "s1 = s @ [r]" by blast
  from Cons.IH [OF rest] obtain new where "s' = s1 @ new" "length new = length xs" by blast
  with r have "s' = s @ (r # new) \<and> length (r # new) = length (x # xs)" by simp
  then show ?case by blast
qed

lemma upt_0_2: "[0..<2] = [0, 1]"
  by (simp add: upt_rec)

lemma quadkey_4_5_3: "quadkey 4 5 3 = ''302''"
  by (simp add: quadkey_def quadkey_digit_def str_digit_def numeral_eq_Suc)

section \<open>Supertiles\<close>

lemma sort_tiles_children:
  "sort_tiles (children (Tile x y z)) =
     [Tile (x * 2) (y * 2) (z + 1), Tile (x * 2) (y * 2 + 1) (z + 1),
      Tile (x * 2 + 1) (y * 2) (z + 1), Tile (x * 2 + 1) (y * 2 + 1) (z + 1)]"
  by (simp add: sort_tiles_def children_def)

text \<open>
  What \<^verbatim>\<open>tile_indices[i + j]\<close> pairs with the four windows, for every tile: the window at
  column offset 256 and row offset 0 goes with the child \<open>(2x, 2y+1)\<close>, one row down in
  the left column, the window at \<open>(256, 256)\<close> with the child \<open>(2x+1, 2y)\<close>, and the
  child \<open>(2x+1, 2y+1)\<close> goes with no window.
\<close>

lemma supertile_pairs_eq:
  "supertile_pairs read dataset (Tile x y z) =
     [(Tile (x * 2) (y * 2) (z + 1), read dataset (Window 0 0 256 256)),
      (Tile (x * 2) (y * 2 + 1) (z + 1), read dataset (Window 0 256 256 256)),
      (Tile (x * 2) (y * 2 + 1) (z + 1), read dataset (Window 256 0 256 256)),
      (Tile (x * 2 + 1) (y * 2) (z + 1), read dataset (Window 256 256 256 256))]"
  by (simp add: supertile_pairs_def sort_tiles_children upt_0_2)

text \<open>
  C1 asks that each of the four windows be paired with the child tile of the same
  quadrant, the four children pairwise distinct. The code does otherwise: for the tile
  \<open>(0, 0, 0)\<close>, with a dataset that reads a window as the window itself,
  \<open>get_supertiles_images\<close> yields the child \<open>(0, 1, 1)\<close> twice, for the windows at
  \<open>(0, 256)\<close> and \<open>(256, 0)\<close>, the child \<open>(1, 0, 1)\<close> for the window at \<open>(256, 256)\<close>,
  and never the child \<open>(1, 1, 1)\<close>.
\<close>

theorem get_supertiles_images_tile_0_0_0:
  "get_supertiles_images (imagery_net_example 200 []) format_example (\<lambda>b. Inr b) (\<lambda>ds w. w)
     [ASelf self_example, ATiles [Tile 0 0 0]]
   = ([GET ''http://tiles/3/4/5''],
      Inr [(Tile 0 0 1, Window 0 0 256 256), (Tile 0 1 1, Window 0 256 256 256),
           (Tile 0 1 1, Window 256 0 256 256), (Tile 1 0 1, Window 256 256 256 256)])"
  by (simp add: get_supertiles_images_def iter_tiles_def get_supertiles_images_tile_def
      imagery_url_def imagery_net_example_def format_example_def supertile_pairs_eq)

section \<open>The payload functions\<close>

text \<open>
  C2. For every object of the class and every list of tiles, the empty one too,
  \<open>get_prediction_payload\<close> and \<open>get_prediction_payload_supertiles\<close> raise a
  \<^verbatim>\<open>TypeError\<close> having issued no request, and return no payload: the static methods
  \<open>get_images\<close> and \<open>get_supertiles_images\<close> have the two parameters
  \<^verbatim>\<open>(self, tiles)\<close> and are called with the one argument \<^verbatim>\<open>tiles\<close>.
\<close>

theorem get_prediction_payload_TypeError:
  "get_prediction_payload net format b64 self tiles model_type = ([], Inl TypeError)
   \<and> get_prediction_payload_supertiles net format open_dataset read b64' self tiles model_type
       = ([], Inl TypeError)"
  by (simp add: get_prediction_payload_def get_prediction_payload_supertiles_def
      getattr_staticmethod_def get_images_def get_supertiles_images_def)

section \<open>Fetching imagery\<close>

text \<open>
  C3 as stated fails: a fetch that returns an empty body, here with status 200, raises
  nothing, and \<open>get_images\<close> yields the pair of the tile and the empty bytes.
\<close>

theorem get_images_empty_body_yields_pair:
  "get_images (imagery_net_example 200 []) format_example [ASelf self_example, ATiles [Tile 4 5 3]]
   = ([GET ''http://tiles/3/4/5''], Inr [(Tile 4 5 3, [])])"
  by (simp add: get_images_def iter_tiles_def get_images_tile_def imagery_url_def
      imagery_net_example_def format_example_def)

lemma get_images_loop:
  assumes "\<forall>t \<in> set ts. format (imagery self) (tile_x t) (tile_y t) (tile_z t) = Inr (url t)
             \<and> net (GET (url t)) = Inr (resp t)"
  shows "foldM_io (get_images_tile net format (ASelf self)) yielded ts
           = (map (\<lambda>t. GET (url t)) ts, Inr (yielded @ map (\<lambda>t. (t, content (resp t))) ts))"
  using assms
  by (induction ts arbitrary: yielded) (auto simp: get_images_tile_def imagery_url_def)

text \<open>
  C3, amended. \<open>get_images\<close>, given the object and the tiles, checks nothing of what a
  fetch returns: when every tile's URL can be formatted and its fetch returns a response
  with a success status, it issues one request per tile and yields exactly the pairs of
  each tile with the body of its response, in input order, whatever the body, an empty
  body included.
\<close>

theorem get_images_yields_every_body:
  assumes "\<forall>t \<in> set tiles. format (imagery self) (tile_x t) (tile_y t) (tile_z t) = Inr (url t)"
    and "\<forall>t \<in> set tiles. net (GET (url t)) = Inr (resp t)"
    and "\<forall>t \<in> set tiles. 200 \<le> status_code (resp t) \<and> status_code (resp t) < 300"
  shows "get_images net format [ASelf self, ATiles tiles]
           = (map (\<lambda>t. GET (url t)) tiles, Inr (map (\<lambda>t. (t, content (resp t))) tiles))"
  using assms get_images_loop [of tiles format self url net resp "[]"]
  by (simp add: get_images_def iter_tiles_def)

theorem get_images_yields_every_body_witness:
  "format_example (imagery self_example) 4 5 3 = Inr ''http://tiles/3/4/5''
   \<and> imagery_net_example 200 [] (GET ''http://tiles/3/4/5'')
       = Inr \<lparr>status_code = 200, content = [], resp_json = None\<rparr>
   \<and> get_images (imagery_net_example 200 []) format_example [ASelf self_example, ATiles [Tile 4 5 3]]
       = ([GET ''http://tiles/3/4/5''], Inr [(Tile 4 5 3, [])])"
  using get_images_yields_every_body [of "[Tile 4 5 3]" format_example self_example
      "\<lambda>t. ''http://tiles/3/4/5''" "imagery_net_example 200 []"
      "\<lambda>t. \<lparr>status_code = 200, content = [], resp_json = None\<rparr>"]
  by (simp add: format_example_def imagery_net_example_def)

section \<open>Messages to tiles\<close>

text \<open>
  C5 as stated fails: \<open>get_tiles\<close> takes the values of a message by position, so a body
  that lists its fields in the order y, x, z, \<^verbatim>\<open>{"y": 5, "x": 4, "z": 3}\<close>, becomes the
  tile with \<open>x = 5\<close> and \<open>y = 4\<close>, not the tile \<open>(4, 5, 3)\<close>.
\<close>

theorem get_tiles_field_order:
  "get_tiles \<lparr>Records = [\<lparr>body = JObj [(''y'', JInt 5), (''x'', JInt 4), (''z'', JInt 3)]\<rparr>]\<rparr>
     = Inr [Tile (JInt 5) (JInt 4) (JInt 3)]
   \<and> Tile (JInt 5) (JInt 4) (JInt 3) \<noteq> Tile (JInt 4) (JInt 5) (JInt 3)"
  by (simp add: get_tiles_def Tile_star_def)

lemma get_tiles_loop:
  "foldM_sum
     (\<lambda>acc record'.
        case dict_values (body record') of
          Inl e \<Rightarrow> Inl e
        | Inr vs \<Rightarrow> (case Tile_star vs of Inl e \<Rightarrow> Inl e | Inr t \<Rightarrow> Inr (acc @ [t])))
     acc (map xyz_message ms)
   = Inr (acc @ map (\<lambda>(x, y, z). Tile (JInt x) (JInt y) (JInt z)) ms)"
  by (induction ms arbitrary: acc) (auto simp: xyz_message_def Tile_star_def)

text \<open>
  C5, amended. For every ordered batch of messages whose bodies carry the integer
  fields x, y, z in this textual order, as the docstring of \<open>get_tiles\<close> expects them,
  \<open>get_tiles\<close> returns a list of the same length in the same order whose \<open>i\<close>-th
  element is the tile \<open>(x_i, y_i, z_i)\<close> of the \<open>i\<close>-th message.
\<close>

theorem get_tiles_xyz_order:
  "get_tiles \<lparr>Records = map xyz_message ms\<rparr>
     = Inr (map (\<lambda>(x, y, z). Tile (JInt x) (JInt y) (JInt z)) ms)"
  by (simp add: get_tiles_def get_tiles_loop)

section \<open>The model type\<close>

lemma serving_default_inputs_meta:
  "serving_default_inputs (meta_with_inputs inputs) = Inr inputs"
  by (simp add: serving_default_inputs_def meta_with_inputs_def)

text \<open>
  C6 as stated fails twice. An input map that contains an entry named \<^verbatim>\<open>inputs\<close> whose
  value is \<^verbatim>\<open>null\<close> is classified as \<open>CLASSIFICATION\<close>, since the test is
  \<^verbatim>\<open>inputs.get("inputs") is not None\<close>. And a status outside 2xx that is not 4xx or 5xx,
  here 300, does not make \<^verbatim>\<open>raise_for_status\<close> raise: a model type is returned.
\<close>

theorem get_meta_null_entry_and_status_300:
  "snd (snd (get_meta (meta_net_example 200 (meta_with_inputs (JObj [(''inputs'', JNull)])))
                self_example)) = Inr CLASSIFICATION
   \<and> map_of [(''inputs'', JNull)] ''inputs'' = Some JNull
   \<and> snd (snd (get_meta (meta_net_example 300 (meta_with_inputs (JObj []))) self_example))
       = Inr CLASSIFICATION"
  by (simp add: get_meta_def meta_net_example_def raise_for_status_def serving_default_inputs_meta)

lemma get_meta_http_error:
  assumes "net (GET (prediction_endpoint self @ ''/metadata'')) = Inr r"
    and "raise_for_status r = Inl e"
  shows "snd (snd (get_meta net self)) = Inl e"
  using assms by (simp add: get_meta_def)

lemma get_meta_no_json:
  assumes "net (GET (prediction_endpoint self @ ''/metadata'')) = Inr r"
    and "raise_for_status r = Inr ()" and "resp_json r = None"
  shows "snd (snd (get_meta net self)) = Inl ValueError"
  using assms by (simp add: get_meta_def)

lemma get_meta_fields_absent:
  assumes "net (GET (prediction_endpoint self @ ''/metadata'')) = Inr r"
    and "raise_for_status r = Inr ()" and "resp_json r = Some m"
    and "serving_default_inputs m = Inl e"
  shows "snd (snd (get_meta net self)) = Inl e"
  using assms by (simp add: get_meta_def)

lemma get_meta_inputs:
  assumes "net (GET (prediction_endpoint self @ ''/metadata'')) = Inr r"
    and "raise_for_status r = Inr ()" and "resp_json r = Some m"
    and "serving_default_inputs m = Inr inputs"
  shows "snd (snd (get_meta net self)) =
           (case dict_get inputs ''inputs'' of
              Inl e \<Rightarrow> Inl e
            | Inr v \<Rightarrow> if v \<noteq> JNull then Inr OBJECT_DETECT else Inr CLASSIFICATION)"
  using assms by (simp add: get_meta_def)

text \<open>
  When \<open>get_meta\<close> returns a model type, the request was answered without an error
  status, by a document whose signature fields are there and whose input map is a dict.
\<close>

lemma get_meta_returns:
  assumes "net (GET (prediction_endpoint self @ ''/metadata'')) = Inr r"
    and "snd (snd (get_meta net self)) = Inr t"
  shows "raise_for_status r = Inr () \<and>
         (\<exists>m d. resp_json r = Some m \<and> serving_default_inputs m = Inr (JObj d) \<and>
            t = (if map_of d ''inputs'' = None \<or> map_of d ''inputs'' = Some JNull
                 then CLASSIFICATION else OBJECT_DETECT))"
proof -
  have ok: "raise_for_status r = Inr ()"
    using assms get_meta_http_error [of net self r, OF assms(1)] by (cases "raise_for_status r") auto
  obtain m where m: "resp_json r = Some m"
    using assms get_meta_no_json [of net self r, OF assms(1) ok] by (cases "resp_json r") auto
  obtain inputs where i: "serving_default_inputs m = Inr inputs"
    using assms get_meta_fields_absent [of net self r, OF assms(1) ok m] by (cases "serving_default_inputs m") auto
  note eq = get_meta_inputs [of net self r, OF assms(1) ok m i]
  from eq assms(2) obtain d where d: "inputs = JObj d"
    by (cases inputs) auto
  from eq assms(2) d
  have "t = (if map_of d ''inputs'' = None \<or> map_of d ''inputs'' = Some JNull
             then CLASSIFICATION else OBJECT_DETECT)"
    by (auto split: option.splits if_splits)
  with ok m i d show ?thesis by blast
qed

text \<open>
  C6, amended. When the metadata request is answered, \<open>get_meta\<close> returns
  \<open>OBJECT_DETECT\<close> exactly when the status is not an error status, the signature fields
  are there and the \<^verbatim>\<open>serving_default\<close> input map has an entry named \<^verbatim>\<open>inputs\<close> whose
  value is not \<^verbatim>\<open>null\<close>; it returns \<open>CLASSIFICATION\<close> exactly when the status is not an
  error status, the fields are there and the map has no such entry or has it with the
  value \<^verbatim>\<open>null\<close>. It fails, returning no model type and assuming none, when the status
  is an error status (400 to 599) or the expected signature fields are absent.
\<close>

theorem get_meta_model_type:
  assumes "net (GET (prediction_endpoint self @ ''/metadata'')) = Inr r"
  shows "(snd (snd (get_meta net self)) = Inr OBJECT_DETECT \<longleftrightarrow>
            raise_for_status r = Inr () \<and>
            (\<exists>m d v. resp_json r = Some m \<and> serving_default_inputs m = Inr (JObj d)
                     \<and> map_of d ''inputs'' = Some v \<and> v \<noteq> JNull))
       \<and> (snd (snd (get_meta net self)) = Inr CLASSIFICATION \<longleftrightarrow>
            raise_for_status r = Inr () \<and>
            (\<exists>m d. resp_json r = Some m \<and> serving_default_inputs m = Inr (JObj d)
                     \<and> (map_of d ''inputs'' = None \<or> map_of d ''inputs'' = Some JNull)))
       \<and> (400 \<le> status_code r \<and> status_code r < 600 \<longrightarrow>
            snd (snd (get_meta net self)) = Inl HTTPError)
       \<and> (\<forall>m e. raise_for_status r = Inr () \<and> resp_json r = Some m
                  \<and> serving_default_inputs m = Inl e \<longrightarrow>
            snd (snd (get_meta net self)) = Inl e)"
proof (intro conjI)
  show "snd (snd (get_meta net self)) = Inr OBJECT_DETECT \<longleftrightarrow>
          raise_for_status r = Inr () \<and>
          (\<exists>m d v. resp_json r = Some m \<and> serving_default_inputs m = Inr (JObj d)
                   \<and> map_of d ''inputs'' = Some v \<and> v \<noteq> JNull)"
  proof
    assume "snd (snd (get_meta net self)) = Inr OBJECT_DETECT"
    from get_meta_returns [of net self r, OF assms this]
    show "raise_for_status r = Inr () \<and>
          (\<exists>m d v. resp_json r = Some m \<and> serving_default_inputs m = Inr (JObj d)
                   \<and> map_of d ''inputs'' = Some v \<and> v \<noteq> JNull)"
      by (auto split: if_splits)
  next
    assume "raise_for_status r = Inr () \<and>
          (\<exists>m d v. resp_json r = Some m \<and> serving_default_inputs m = Inr (JObj d)
                   \<and> map_of d ''inputs'' = Some v \<and> v \<noteq> JNull)"
    then show "snd (snd (get_meta net self)) = Inr OBJECT_DETECT"
      using get_meta_inputs [of net self r, OF assms] by auto
  qed
  show "snd (snd (get_meta net self)) = Inr CLASSIFICATION \<longleftrightarrow>
          raise_for_status r = Inr () \<and>
          (\<exists>m d. resp_json r = Some m \<and> serving_default_inputs m = Inr (JObj d)
                 \<and> (map_of d ''inputs'' = None \<or> map_of d ''inputs'' = Some JNull))"
  proof
    assume "snd (snd (get_meta net self)) = Inr CLASSIFICATION"
    from get_meta_returns [of net self r, OF assms this]
    show "raise_for_status r = Inr () \<and>
          (\<exists>m d. resp_json r = Some m \<and> serving_default_inputs m = Inr (JObj d)
                 \<and> (map_of d ''inputs'' = None \<or> map_of d ''inputs'' = Some JNull))"
      by (auto split: if_splits)
  next
    assume "raise_for_status r = Inr () \<and>
          (\<exists>m d. resp_json r = Some m \<and> serving_default_inputs m = Inr (JObj d)
                 \<and> (map_of d ''inputs'' = None \<or> map_of d ''inputs'' = Some JNull))"
    then show "snd (snd (get_meta net self)) = Inr CLASSIFICATION"
      using get_meta_inputs [of net self r, OF assms] by auto
  qed
  show "400 \<le> status_code r \<and> status_code r < 600 \<longrightarrow>
          snd (snd (get_meta net self)) = Inl HTTPError"
    using get_meta_http_error [of net self r HTTPError, OF assms] by (simp add: raise_for_status_def)
  show "\<forall>m e. raise_for_status r = Inr () \<and> resp_json r = Some m
                \<and> serving_default_inputs m = Inl e \<longrightarrow>
          snd (snd (get_meta net self)) = Inl e"
    using get_meta_fields_absent [of net self r, OF assms] by blast
qed

theorem get_meta_model_type_witness:
  "meta_net_example 200 (meta_with_inputs (JObj [(''inputs'', JObj [])]))
     (GET (prediction_endpoint self_example @ ''/metadata''))
     = Inr \<lparr>status_code = 200, content = [],
            resp_json = Some (meta_with_inputs (JObj [(''inputs'', JObj [])]))\<rparr>
   \<and> snd (snd (get_meta (meta_net_example 200 (meta_with_inputs (JObj [(''inputs'', JObj [])])))
                  self_example)) = Inr OBJECT_DETECT
   \<and> snd (snd (get_meta (meta_net_example 200 (JObj [])) self_example)) = Inl KeyError
   \<and> snd (snd (get_meta (meta_net_example 404 (JObj [])) self_example)) = Inl HTTPError"
proof -
  have od: "snd (snd (get_meta (meta_net_example 200 (meta_with_inputs (JObj [(''inputs'', JObj [])])))
                  self_example)) = Inr OBJECT_DETECT"
    using get_meta_model_type
      [of "meta_net_example 200 (meta_with_inputs (JObj [(''inputs'', JObj [])]))" self_example
        "\<lparr>status_code = 200, content = [],
          resp_json = Some (meta_with_inputs (JObj [(''inputs'', JObj [])]))\<rparr>"]
    by (simp add: meta_net_example_def raise_for_status_def serving_default_inputs_meta)
  have absent: "snd (snd (get_meta (meta_net_example 200 (JObj [])) self_example)) = Inl KeyError"
    using get_meta_model_type [of "meta_net_example 200 (JObj [])" self_example
        "\<lparr>status_code = 200, content = [], resp_json = Some (JObj [])\<rparr>"]
    by (simp add: meta_net_example_def raise_for_status_def serving_default_inputs_def)
  have status: "snd (snd (get_meta (meta_net_example 404 (JObj [])) self_example)) = Inl HTTPError"
    using get_meta_model_type [of "meta_net_example 404 (JObj [])" self_example
        "\<lparr>status_code = 404, content = [], resp_json = Some (JObj [])\<rparr>"]
    by (simp add: meta_net_example_def)
  from od absent status show ?thesis
    by (simp add: meta_net_example_def)
qed

section \<open>Classification results\<close>

lemma cl_pred_dict_loop:
  assumes "n \<le> length vec" and "length vec \<le> length inferences"
  shows "foldM_sum
           (\<lambda>pred_dict j.
              case py_index inferences j of
                Inl e \<Rightarrow> Inl e
              | Inr label \<Rightarrow> Inr (pred_dict(label \<mapsto> vec ! j)))
           Map.empty [0..<n]
         = Inr (dict_of_pairs (zip (take n inferences) (take n vec)))"
  using assms
proof (induction n)
  case 0
  then show ?case by (simp add: dict_of_pairs_def)
next
  case (Suc n)
  then have "n < length vec" "n < length inferences" by simp_all
  then have z: "zip (take (Suc n) inferences) (take (Suc n) vec)
      = zip (take n inferences) (take n vec) @ [(inferences ! n, vec ! n)]"
    by (simp add: take_Suc_conv_app_nth)
  from Suc show ?case
    by (auto simp add: foldM_sum_append z dict_of_pairs_def py_index_def fun_eq_iff)
qed

lemma cl_pred_dict_zip:
  assumes "length vec \<le> length inferences"
  shows "cl_pred_dict inferences vec = Inr (dict_of_pairs (zip inferences vec))"
proof -
  have "zip (take (length vec) inferences) (take (length vec) vec) = zip inferences vec"
    by (metis take_zip length_zip min.cobounded2 take_all)
  with cl_pred_dict_loop [of "length vec" vec inferences] assms show ?thesis
    by (simp add: cl_pred_dict_def)
qed

lemma cl_pred_dict_error: "cl_pred_dict inferences vec = Inl e \<Longrightarrow> e = IndexError"
  unfolding cl_pred_dict_def
  by (erule foldM_sum_error [rotated]) (auto simp: py_index_def split: if_splits sum.splits)

lemma cl_record_error: "cl_record preds tiles pid inferences acc i = Inl e \<Longrightarrow> e = IndexError"
  by (auto simp: cl_record_def py_index_def split: sum.splits if_splits dest: cl_pred_dict_error)

text \<open>
  C4 as stated fails: when the server returns more prediction vectors than there are
  tiles, here two vectors for one tile, \<open>cl_post_prediction\<close> raises nothing and returns
  a result document; the surplus vector is never read.
\<close>

theorem cl_post_prediction_surplus_vectors:
  "cl_post_prediction (cl_net_example [[0.9, 0.1], [0.2, 0.8]]) self_example payload_example
     [Tile 4 5 3] ''p'' [''a'', ''b'']
   = ([POST ''http://tfs:predict'' payload_example],
      Inr \<lparr>predictionId = ''p'',
           predictions = [\<lparr>rec_quadkey = ''302'', rec_quadkey_geom = None,
                           rec_predictions = [''a'' \<mapsto> 0.9, ''b'' \<mapsto> 0.1],
                           rec_prediction_id = ''p''\<rparr>]\<rparr>)"
  by (simp add: cl_post_prediction_def cl_net_example_def self_example_def init_def
      raise_for_status_def cl_record_def py_index_def cl_pred_dict_def quadkey_4_5_3 upt_0_2)

text \<open>
  C4, amended. For every classification batch in which the model server answers, without
  an error status, with fewer prediction vectors than there are input tiles,
  \<open>cl_post_prediction\<close> fails, with Python's \<^verbatim>\<open>IndexError\<close>, and returns no result
  document.
\<close>

theorem cl_post_prediction_missing_vectors:
  assumes "net (POST (prediction_endpoint self @ '':predict'') payload) = Inr r"
    and "raise_for_status r = Inr ()"
    and "resp_json r = Some (Some preds)"
    and "length preds < length tiles"
  shows "cl_post_prediction net self payload tiles pid inferences
           = ([POST (prediction_endpoint self @ '':predict'') payload], Inl IndexError)"
proof -
  have "\<exists>e. foldM_sum (cl_record preds tiles pid inferences) [] [0..<length tiles] = Inl e"
  proof (rule foldM_sum_fails [where x = "length preds"])
    show "length preds \<in> set [0..<length tiles]" using assms(4) by simp
    show "\<exists>e. cl_record preds tiles pid inferences s (length preds) = Inl e" for s
      by (simp add: cl_record_def py_index_def)
  qed
  then obtain e where e: "foldM_sum (cl_record preds tiles pid inferences) [] [0..<length tiles] = Inl e"
    by blast
  have "e = IndexError"
    by (rule foldM_sum_error [OF _ e]) (rule cl_record_error)
  with e assms show ?thesis by (simp add: cl_post_prediction_def)
qed

theorem cl_post_prediction_missing_vectors_witness:
  "cl_net_example [[0.9, 0.1]] (POST (prediction_endpoint self_example @ '':predict'') payload_example)
     = Inr \<lparr>status_code = 200, content = [], resp_json = Some (Some [[0.9, 0.1]])\<rparr>
   \<and> raise_for_status \<lparr>status_code = 200, content = [], resp_json = Some (Some [[0.9, 0.1 :: real]])\<rparr>
       = Inr ()
   \<and> length [[0.9, 0.1 :: real]] < length [Tile 4 5 3, Tile 5 5 (3::int)]
   \<and> cl_post_prediction (cl_net_example [[0.9, 0.1]]) self_example payload_example
        [Tile 4 5 3, Tile 5 5 3] ''p'' [''a'', ''b'']
       = ([POST (prediction_endpoint self_example @ '':predict'') payload_example], Inl IndexError)"
  using cl_post_prediction_missing_vectors [of "cl_net_example [[0.9, 0.1]]" self_example
      payload_example "\<lparr>status_code = 200, content = [], resp_json = Some (Some [[0.9, 0.1]])\<rparr>"
      "[[0.9, 0.1]]" "[Tile 4 5 3, Tile 5 5 3]" "''p''" "[''a'', ''b'']"]
  by (simp add: cl_net_example_def raise_for_status_def)

text \<open>
  C7 as stated fails: a response with as many vectors as tiles is aligned in the
  specification's sense, yet when a vector is longer than the supplied label list, here
  three scores for two labels, \<^verbatim>\<open>inferences[j]\<close> on line 175 raises an \<^verbatim>\<open>IndexError\<close> and
  no record is returned.
\<close>

theorem cl_post_prediction_long_vector:
  "cl_post_prediction (cl_net_example [[0.9, 0.1, 0.3]]) self_example payload_example
     [Tile 4 5 3] ''p'' [''a'', ''b'']
   = ([POST ''http://tfs:predict'' payload_example], Inl IndexError)
   \<and> length [[0.9, 0.1, 0.3 :: real]] = length [Tile 4 5 (3::int)]"
  by (simp add: cl_post_prediction_def cl_net_example_def self_example_def init_def
      raise_for_status_def cl_record_def py_index_def cl_pred_dict_def upt_rec)

text \<open>
  C7, amended. For every classification batch of \<open>n\<close> tiles that the server answers,
  without an error status, with exactly \<open>n\<close> prediction vectors none of which is longer
  than the supplied label list, \<open>cl_post_prediction\<close> returns a document of exactly \<open>n\<close>
  records; the \<open>i\<close>-th record has the quadkey of the \<open>i\<close>-th input tile, its predictions
  map zips the supplied label list against that tile's prediction vector, and it carries
  no geometry.
\<close>

theorem cl_post_prediction_records:
  assumes "net (POST (prediction_endpoint self @ '':predict'') payload) = Inr r"
    and "raise_for_status r = Inr ()"
    and "resp_json r = Some (Some preds)"
    and "length preds = length tiles"
    and "list_all (\<lambda>vec. length vec \<le> length inferences) preds"
  shows "\<exists>doc. cl_post_prediction net self payload tiles pid inferences
             = ([POST (prediction_endpoint self @ '':predict'') payload], Inr doc)
        \<and> predictionId doc = pid
        \<and> length (predictions doc) = length tiles
        \<and> (\<forall>i < length tiles.
              rec_quadkey (predictions doc ! i)
                = quadkey (tile_x (tiles ! i)) (tile_y (tiles ! i)) (tile_z (tiles ! i))
            \<and> rec_predictions (predictions doc ! i) = dict_of_pairs (zip inferences (preds ! i))
            \<and> rec_quadkey_geom (predictions doc ! i) = None
            \<and> rec_prediction_id (predictions doc ! i) = pid)"
proof -
  have step: "cl_record preds tiles pid inferences s i = Inr (s @ [cl_expected preds tiles pid inferences i])"
    if "i \<in> set [0..<length tiles]" for s i
  proof -
    from that assms(4) have i: "i < length preds" by simp
    with assms(5) have "length (preds ! i) \<le> length inferences"
      by (simp add: list_all_length)
    then show ?thesis using i
      by (simp add: cl_record_def py_index_def cl_pred_dict_zip cl_expected_def)
  qed
  have "foldM_sum (cl_record preds tiles pid inferences) [] [0..<length tiles]
          = Inr ([] @ map (cl_expected preds tiles pid inferences) [0..<length tiles])"
    by (rule foldM_sum_map) (rule step)
  with assms show ?thesis
    by (simp add: cl_post_prediction_def cl_expected_def)
qed

theorem cl_post_prediction_records_witness:
  "cl_net_example [[0.9, 0.1]] (POST (prediction_endpoint self_example @ '':predict'') payload_example)
     = Inr \<lparr>status_code = 200, content = [], resp_json = Some (Some [[0.9, 0.1]])\<rparr>
   \<and> raise_for_status \<lparr>status_code = 200, content = [], resp_json = Some (Some [[0.9, 0.1 :: real]])\<rparr>
       = Inr ()
   \<and> length [[0.9, 0.1 :: real]] = length [Tile 4 5 (3::int)]
   \<and> list_all (\<lambda>vec. length vec \<le> length [''a'', ''b'']) [[0.9, 0.1 :: real]]
   \<and> (\<exists>doc. cl_post_prediction (cl_net_example [[0.9, 0.1]]) self_example payload_example
               [Tile 4 5 3] ''p'' [''a'', ''b'']
             = ([POST (prediction_endpoint self_example @ '':predict'') payload_example], Inr doc)
        \<and> length (predictions doc) = 1
        \<and> rec_quadkey (predictions doc ! 0) = ''302''
        \<and> rec_predictions (predictions doc ! 0) = [''a'' \<mapsto> 0.9, ''b'' \<mapsto> 0.1]
        \<and> rec_quadkey_geom (predictions doc ! 0) = None)"
  using cl_post_prediction_records [of "cl_net_example [[0.9, 0.1]]" self_example
      payload_example "\<lparr>status_code = 200, content = [], resp_json = Some (Some [[0.9, 0.1]])\<rparr>"
      "[[0.9, 0.1]]" "[Tile 4 5 3]" "[''a'', ''b'']" "''p''"]
  by (auto simp add: cl_net_example_def raise_for_status_def quadkey_4_5_3 dict_of_pairs_def)

section \<open>Detection results\<close>

lemma py_slice_to_length: "0 \<le> n \<Longrightarrow> int (length (py_slice_to xs n)) \<le> n"
  by (simp add: py_slice_to_def)

lemma py_int_nonneg: "0 \<le> f \<Longrightarrow> 0 \<le> py_int f"
  by (simp add: py_int_def)

lemma py_int_minus_one: "py_int (- 1) = - 1"
  using ceiling_of_int [of "- 1", where ?'a = real] by (simp add: py_int_def)

lemma od_records_zero: "num_detections preds = Some 0 \<Longrightarrow> od_records preds tile pid acc = Inr acc"
  by (simp add: od_records_def)

lemma od_records_bound:
  assumes "num_detections preds = Some n" and "0 \<le> n"
    and "od_records preds tile pid acc = Inr acc'"
  shows "\<exists>new. acc' = acc @ new \<and> int (length new) \<le> py_int n"
proof (cases "n = 0")
  case True
  with assms show ?thesis by (simp add: od_records_def py_int_def)
next
  case False
  with assms obtain all_scores all_boxes where
    s: "detection_scores preds = Some all_scores" and b: "detection_boxes preds = Some all_boxes"
    by (auto simp: od_records_def split: option.splits)
  let ?bs = "map bbox_256 (py_slice_to all_boxes (py_int n))"
  let ?f = "\<lambda>acc j.
              case tf_bbox_geo (?bs ! j) tile of
                Inl e \<Rightarrow> Inl e
              | Inr bbox \<Rightarrow>
                  (case py_index all_scores j of
                     Inl e \<Rightarrow> Inl e
                   | Inr score \<Rightarrow>
                       Inr (acc @
                         [\<lparr>rec_quadkey = quadkey (tile_x tile) (tile_y tile) (tile_z tile),
                           rec_quadkey_geom = Some bbox,
                           rec_predictions = [''default'' \<mapsto> score],
                           rec_prediction_id = pid\<rparr>]))"
  from assms False s b have run: "foldM_sum ?f acc [0..<length ?bs] = Inr acc'"
    by (simp add: od_records_def Let_def)
  have "\<exists>new. acc' = acc @ new \<and> length new = length [0..<length ?bs]"
    by (rule foldM_sum_grows [OF _ run]) (auto split: sum.splits)
  then obtain new where new: "acc' = acc @ new" "length new = length (py_slice_to all_boxes (py_int n))"
    by auto
  from assms(2) have "int (length (py_slice_to all_boxes (py_int n))) \<le> py_int n"
    by (intro py_slice_to_length py_int_nonneg)
  with new show ?thesis by auto
qed

lemma tf_bbox_geo_four: "\<exists>g. tf_bbox_geo (bbox_256 [a, b, c, d]) tile = Inr g"
  by (simp add: tf_bbox_geo_def tf_bbox_geo_pred_def bbox_256_def affine_transform_def
      split: prod.splits)

text \<open>
  With \<^verbatim>\<open>num_detections = -1.0\<close> the slice \<^verbatim>\<open>[:-1]\<close> drops the last of the three boxes
  the server sent, and two records come out.
\<close>

lemma od_records_minus_one:
  "map_sum id length (od_records (od_preds_example (- 1)) tile pid []) = Inr 2"
proof -
  obtain g0 where g0: "tf_bbox_geo (bbox_256 [1 / 4, 1 / 4, 3 / 4, 3 / 4]) tile = Inr g0"
    using tf_bbox_geo_four by blast
  obtain g1 where g1: "tf_bbox_geo (bbox_256 [0, 0, 1, 1]) tile = Inr g1"
    using tf_bbox_geo_four by blast
  show ?thesis
    by (simp add: od_records_def od_preds_example_def py_int_minus_one py_slice_to_def upt_0_2
        g0 g1 py_index_def)
qed

lemma od_tile_example:
  "od_tile (od_net_example n) self_example payload_example [Tile 4 5 3] ''p'' [] 0
     = ([POST ''http://tfs:predict'' payload_example],
        od_records (od_preds_example n) (Tile 4 5 3) ''p'' [])"
  by (simp add: od_tile_def od_net_example_def payload_example_def raise_for_status_def
      py_index_def self_example_def init_def)

text \<open>
  C8 as stated fails: nothing keeps the number the server reports from being negative,
  and for \<^verbatim>\<open>num_detections = -1.0\<close>, which truncates to \<open>-1\<close>, \<open>od_post_prediction\<close>
  emits two records for the tile, more than \<open>-1\<close>.
\<close>

theorem od_post_prediction_negative_count:
  "map_sum id (length \<circ> predictions)
     (snd (od_post_prediction (od_net_example (- 1)) self_example payload_example [Tile 4 5 3] ''p''))
     = Inr 2
   \<and> py_int (- 1) = - 1"
  using od_records_minus_one [of "Tile 4 5 3" "''p''"]
  by (auto simp: od_post_prediction_def od_tile_example py_int_minus_one split: sum.splits)

text \<open>
  C8, amended. For every tile of a detection batch for which the server reports a
  \<^verbatim>\<open>num_detections\<close> that is not negative, the number of records emitted for that tile is
  at most \<^verbatim>\<open>num_detections\<close> truncated to an integer, and it is exactly 0 when
  \<^verbatim>\<open>num_detections == 0\<close>, in which case no error is raised and the loop goes on to the
  next tile with the list of records as it was.
\<close>

theorem od_tile_record_count:
  assumes "getitem_key payload ''instances'' = Inr instances"
    and "getitem_idx instances i = Inr instance'"
    and "net (POST (prediction_endpoint self @ '':predict'') (JObj [(''instances'', JArr [instance'])]))
           = Inr r"
    and "raise_for_status r = Inr ()"
    and "resp_json r = Some (Some (preds # rest))"
    and "num_detections preds = Some n"
    and "0 \<le> n"
  shows "(n = 0 \<longrightarrow>
            od_tile net self payload tiles pid pred_list i
              = ([POST (prediction_endpoint self @ '':predict'')
                    (JObj [(''instances'', JArr [instance'])])],
                 Inr pred_list))
       \<and> (\<forall>pred_list'. snd (od_tile net self payload tiles pid pred_list i) = Inr pred_list' \<longrightarrow>
            (\<exists>new. pred_list' = pred_list @ new \<and> int (length new) \<le> py_int n))"
proof -
  have t: "od_tile net self payload tiles pid pred_list i
          = ([POST (prediction_endpoint self @ '':predict'') (JObj [(''instances'', JArr [instance'])])],
             od_records preds (tiles ! i) pid pred_list)"
    using assms by (simp add: od_tile_def py_index_def)
  show ?thesis
    using od_records_zero [of preds "tiles ! i" pid pred_list]
      od_records_bound [of preds n "tiles ! i" pid pred_list] assms(6,7)
    by (auto simp: t)
qed

theorem od_tile_record_count_witness:
  "getitem_key payload_example ''instances'' = Inr (JArr [instance_example])
   \<and> getitem_idx (JArr [instance_example]) 0 = Inr instance_example
   \<and> od_net_example 0 (POST (prediction_endpoint self_example @ '':predict'')
        (JObj [(''instances'', JArr [instance_example])]))
       = Inr \<lparr>status_code = 200, content = [], resp_json = Some (Some [od_preds_example 0])\<rparr>
   \<and> raise_for_status
        \<lparr>status_code = 200, content = [], resp_json = Some (Some [od_preds_example 0])\<rparr> = Inr ()
   \<and> num_detections (od_preds_example 0) = Some 0
   \<and> od_tile (od_net_example 0) self_example payload_example [Tile 4 5 3] ''p'' [] 0
       = ([POST (prediction_endpoint self_example @ '':predict'') payload_example], Inr [])"
  using od_tile_record_count [of payload_example "JArr [instance_example]" 0 instance_example
      "od_net_example 0" self_example
      "\<lparr>status_code = 200, content = [], resp_json = Some (Some [od_preds_example 0])\<rparr>"
      "od_preds_example 0" "[]" 0 "[Tile 4 5 3]" "''p''" "[]"]
  by (simp add: od_net_example_def payload_example_def raise_for_status_def od_preds_example_def)

section \<open>Pixel boxes of detections\<close>

lemma foldM_io_concat:
  assumes "\<And>s x. x \<in> set xs \<Longrightarrow> f s x = ([rq x], Inr (s @ g x))"
  shows "foldM_io f s xs = (map rq xs, Inr (s @ concat (map g xs)))"
  using assms by (induction xs arbitrary: s) auto

text \<open>
  Line 247 on the scaled box of line 210: the list \<^verbatim>\<open>pred\<close> that goes into
  \<^verbatim>\<open>geometry.box\<close> is the specification's pixel rectangle.
\<close>

lemma tf_bbox_geo_pred_scaled:
  "tf_bbox_geo_pred (bbox_256 (box_list box)) = Inr (box_list (spec_pixel_rect box))"
  by (cases box)
    (simp add: tf_bbox_geo_pred_def bbox_256_def box_list_def spec_pixel_rect_def
      spec_scale_def spec_reorder_def mult.commute)

lemma tf_bbox_geo_scaled:
  "tf_bbox_geo (bbox_256 (box_list box)) tile = Inr (geo_transform (spec_pixel_rect box) tile)"
  by (cases box)
    (simp add: tf_bbox_geo_def tf_bbox_geo_pred_def bbox_256_def box_list_def spec_pixel_rect_def
      spec_scale_def spec_reorder_def geo_transform_def affine_transform_def geometry_box_def
      field_simps split: prod.splits)

lemma od_records_expected:
  assumes "num_detections preds = Some n"
    and "if n = 0 then bs = []
         else detection_scores preds = Some scores \<and> detection_boxes preds = Some boxes
              \<and> py_slice_to boxes (py_int n) = map box_list bs \<and> length bs \<le> length scores"
  shows "od_records preds tile pid acc
           = Inr (acc @ map (\<lambda>j. od_expected tile pid (bs ! j) (scores ! j)) [0..<length bs])"
proof (cases "n = 0")
  case True
  with assms show ?thesis by (simp add: od_records_def)
next
  case False
  with assms have s: "detection_scores preds = Some scores" and b: "detection_boxes preds = Some boxes"
    and k: "py_slice_to boxes (py_int n) = map box_list bs" and l: "length bs \<le> length scores"
    by simp_all
  let ?bs = "map bbox_256 (map box_list bs)"
  let ?f = "\<lambda>acc j.
              case tf_bbox_geo (?bs ! j) tile of
                Inl e \<Rightarrow> Inl e
              | Inr bbox \<Rightarrow>
                  (case py_index scores j of
                     Inl e \<Rightarrow> Inl e
                   | Inr score \<Rightarrow>
                       Inr (acc @
                         [\<lparr>rec_quadkey = quadkey (tile_x tile) (tile_y tile) (tile_z tile),
                           rec_quadkey_geom = Some bbox,
                           rec_predictions = [''default'' \<mapsto> score],
                           rec_prediction_id = pid\<rparr>]))"
  have step: "?f a j = Inr (a @ [od_expected tile pid (bs ! j) (scores ! j)])"
    if "j \<in> set [0..<length bs]" for a j
    using that l by (simp add: tf_bbox_geo_scaled py_index_def od_expected_def)
  have "foldM_sum ?f acc [0..<length bs]
          = Inr (acc @ map (\<lambda>j. od_expected tile pid (bs ! j) (scores ! j)) [0..<length bs])"
    by (rule foldM_sum_map) (rule step)
  with assms(1) False s b k show ?thesis
    by (simp add: od_records_def Let_def)
qed

text \<open>
  C9. Take a detection batch in which every tile's request is answered, without an error
  status, by a prediction whose kept boxes (the first \<^verbatim>\<open>int(num_detections)\<close> ones) are
  boxes of four numbers \<open>[ymin, xmin, ymax, xmax]\<close>, each with a score. Then
  \<open>od_post_prediction\<close> returns, tile after tile and box after box, one record per kept
  box whose geometry is the geographic transform of the pixel rectangle
  \<open>(256*xmin, 256*ymin, 256*xmax, 256*ymax)\<close>, the box reordered to
  \<open>[xmin, ymin, xmax, ymax]\<close> and then scaled by 256; and the list that \<open>tf_bbox_geo\<close>
  makes of the box scaled by \<open>od_post_prediction\<close>, scaling first and reordering
  afterwards, is that same rectangle, for every box, in particular for those with
  coordinates in \<open>[0, 1]\<close>. Floats are read as real numbers.
\<close>

theorem od_post_prediction_pixel_rectangles:
  assumes "getitem_key payload ''instances'' = Inr instances"
    and "\<forall>i < length tiles. getitem_idx instances i = Inr (inst i)"
    and "\<forall>i < length tiles.
           net (POST (prediction_endpoint self @ '':predict'') (JObj [(''instances'', JArr [inst i])]))
             = Inr (r i)"
    and "\<forall>i < length tiles. raise_for_status (r i) = Inr ()"
    and "\<forall>i < length tiles. resp_json (r i) = Some (Some (preds i # rest i))"
    and "\<forall>i < length tiles. num_detections (preds i) = Some (n i)"
    and "\<forall>i < length tiles.
           (if n i = 0 then bs i = []
            else detection_scores (preds i) = Some (scores i)
               \<and> detection_boxes (preds i) = Some (boxes i)
               \<and> py_slice_to (boxes i) (py_int (n i)) = map box_list (bs i)
               \<and> length (bs i) \<le> length (scores i))"
  shows "od_post_prediction net self payload tiles pid
           = (map (\<lambda>i. POST (prediction_endpoint self @ '':predict'')
                          (JObj [(''instances'', JArr [inst i])])) [0..<length tiles],
              Inr \<lparr>predictionId = pid,
                   predictions =
                     concat (map (\<lambda>i. map (\<lambda>j. od_expected (tiles ! i) pid (bs i ! j) (scores i ! j))
                                         [0..<length (bs i)])
                               [0..<length tiles])\<rparr>)
       \<and> tf_bbox_geo_pred (bbox_256 [ymin, xmin, ymax, xmax])
           = Inr (box_list (spec_pixel_rect (ymin, xmin, ymax, xmax)))
       \<and> spec_pixel_rect (ymin, xmin, ymax, xmax) = (256 * xmin, 256 * ymin, 256 * xmax, 256 * ymax)"
proof -
  let ?rq = "\<lambda>i. POST (prediction_endpoint self @ '':predict'') (JObj [(''instances'', JArr [inst i])])"
  let ?g = "\<lambda>i. map (\<lambda>j. od_expected (tiles ! i) pid (bs i ! j) (scores i ! j)) [0..<length (bs i)]"
  have step: "od_tile net self payload tiles pid s i = ([?rq i], Inr (s @ ?g i))"
    if "i \<in> set [0..<length tiles]" for s i
  proof -
    from that have i: "i < length tiles" by simp
    have "od_tile net self payload tiles pid s i
            = ([?rq i], od_records (preds i) (tiles ! i) pid s)"
      using assms(1-5) i by (simp add: od_tile_def py_index_def)
    moreover have "od_records (preds i) (tiles ! i) pid s = Inr (s @ ?g i)"
      using assms(6,7) i by (intro od_records_expected [where n = "n i" and boxes = "boxes i"]) simp_all
    ultimately show ?thesis by simp
  qed
  have "foldM_io (od_tile net self payload tiles pid) [] [0..<length tiles]
          = (map ?rq [0..<length tiles], Inr ([] @ concat (map ?g [0..<length tiles])))"
    by (rule foldM_io_concat) (rule step)
  then have a: "od_post_prediction net self payload tiles pid
           = (map ?rq [0..<length tiles],
              Inr \<lparr>predictionId = pid, predictions = concat (map ?g [0..<length tiles])\<rparr>)"
    by (simp add: od_post_prediction_def)
  have b: "tf_bbox_geo_pred (bbox_256 [ymin, xmin, ymax, xmax])
           = Inr (box_list (spec_pixel_rect (ymin, xmin, ymax, xmax)))"
    using tf_bbox_geo_pred_scaled [of "(ymin, xmin, ymax, xmax)"] by (simp add: box_list_def)
  have c: "spec_pixel_rect (ymin, xmin, ymax, xmax) = (256 * xmin, 256 * ymin, 256 * xmax, 256 * ymax)"
    by (simp add: spec_pixel_rect_def spec_scale_def spec_reorder_def)
  from a b c show ?thesis by blast
qed

lemma py_int_two: "py_int 2 = 2"
  by (simp add: py_int_def)

theorem od_post_prediction_pixel_rectangles_witness:
  "getitem_key payload_example ''instances'' = Inr (JArr [instance_example])
   \<and> getitem_idx (JArr [instance_example]) 0 = Inr instance_example
   \<and> od_net_example 2 (POST (prediction_endpoint self_example @ '':predict'')
        (JObj [(''instances'', JArr [instance_example])]))
       = Inr \<lparr>status_code = 200, content = [], resp_json = Some (Some [od_preds_example 2])\<rparr>
   \<and> raise_for_status
        \<lparr>status_code = 200, content = [], resp_json = Some (Some [od_preds_example 2])\<rparr> = Inr ()
   \<and> num_detections (od_preds_example 2) = Some 2
   \<and> py_slice_to [[0.25, 0.25, 0.75, 0.75], [0, 0, 1, 1], [0, 0, 0.5, 0.5]] (py_int 2)
       = map box_list [(0.25, 0.25, 0.75, 0.75), (0, 0, 1, 1)]
   \<and> od_post_prediction (od_net_example 2) self_example payload_example [Tile 4 5 3] ''p''
       = ([POST (prediction_endpoint self_example @ '':predict'') payload_example],
          Inr \<lparr>predictionId = ''p'',
               predictions = [od_expected (Tile 4 5 3) ''p'' (0.25, 0.25, 0.75, 0.75) 0.9,
                              od_expected (Tile 4 5 3) ''p'' (0, 0, 1, 1) 0.8]\<rparr>)
   \<and> spec_pixel_rect (0.25, 0.25, 0.75, 0.75) = (64, 64, 192, 192)"
proof -
  have sl: "py_slice_to [[0.25, 0.25, 0.75, 0.75], [0, 0, 1, 1], [0, 0, 0.5, 0.5]] (py_int 2)
       = map box_list [(0.25, 0.25, 0.75, 0.75), (0, 0, 1, 1 :: real)]"
    by (simp add: py_int_two py_slice_to_def box_list_def)
  have run: "od_post_prediction (od_net_example 2) self_example payload_example [Tile 4 5 3] ''p''
       = ([POST (prediction_endpoint self_example @ '':predict'') payload_example],
          Inr \<lparr>predictionId = ''p'',
               predictions = [od_expected (Tile 4 5 3) ''p'' (0.25, 0.25, 0.75, 0.75) 0.9,
                              od_expected (Tile 4 5 3) ''p'' (0, 0, 1, 1) 0.8]\<rparr>)"
    and rect: "spec_pixel_rect (0.25, 0.25, 0.75, 0.75) = (64, 64, 192, 192)"
    using sl od_post_prediction_pixel_rectangles
      [of payload_example "JArr [instance_example]" "[Tile 4 5 3]" "\<lambda>i. instance_example"
        "od_net_example 2" self_example
        "\<lambda>i. \<lparr>status_code = 200, content = [], resp_json = Some (Some [od_preds_example 2])\<rparr>"
        "\<lambda>i. od_preds_example 2" "\<lambda>i. []" "\<lambda>i. 2"
        "\<lambda>i. [(0.25, 0.25, 0.75, 0.75), (0, 0, 1, 1)]" "\<lambda>i. [0.9, 0.8, 0.7]"
        "\<lambda>i. [[0.25, 0.25, 0.75, 0.75], [0, 0, 1, 1], [0, 0, 0.5, 0.5]]"
        "''p''" "0.25" "0.25" "0.75" "0.75"]
    by (simp_all add: od_net_example_def payload_example_def raise_for_status_def
        od_preds_example_def upt_0_2)
  from sl run rect show ?thesis
    by (simp add: od_net_example_def payload_example_def raise_for_status_def od_preds_example_def)
qed

end
